theory Spec2Isabelle
  imports Main
begin

section \<open>Python values, exceptions and library calls\<close>

text \<open>
  The handler (\<^verbatim>\<open>mysql_handler.py\<close>, class \<^verbatim>\<open>MySQLHandler\<close>) stores whatever its keyword
  arguments hold. The values that matter here are \<^verbatim>\<open>None\<close>, booleans, integers and strings.
\<close>

datatype pyval = PNone | PBool bool | PInt int | PStr string

text \<open>\<^verbatim>\<open>str(v)\<close>, as the f-strings of the source apply it.\<close>

definition digit_char :: "nat \<Rightarrow> char" where
  "digit_char d = ''0123456789'' ! d"

function string_of_nat :: "nat \<Rightarrow> string" where
  "string_of_nat n =
     (if n < 10 then [digit_char n] else string_of_nat (n div 10) @ [digit_char (n mod 10)])"
  by pat_completeness auto
termination
  by (relation "measure id") auto

declare string_of_nat.simps [simp del]

definition string_of_int :: "int \<Rightarrow> string" where
  "string_of_int i = (if i < 0 then CHR ''-'' # string_of_nat (nat (- i)) else string_of_nat (nat i))"

fun py_str :: "pyval \<Rightarrow> string" where
  "py_str PNone = ''None''"
| "py_str (PBool b) = (if b then ''True'' else ''False'')"
| "py_str (PInt i) = string_of_int i"
| "py_str (PStr s) = s"

text \<open>An exception: its class name and \<^verbatim>\<open>str(e)\<close>. Only subclasses of \<^verbatim>\<open>Exception\<close> are
  modelled (the client library's errors all are), so \<^verbatim>\<open>except Exception\<close> catches each one.\<close>

datatype py_exception = PyExc (exc_class: string) (exc_msg: string)

type_synonym 'a raises = "py_exception + 'a"

text \<open>Attribute access on \<^verbatim>\<open>None\<close>.\<close>

definition attribute_error :: "string \<Rightarrow> py_exception" where
  "attribute_error a =
     PyExc ''AttributeError''
       ([CHR 0x27] @ ''NoneType'' @ [CHR 0x27] @ '' object has no attribute '' @
        [CHR 0x27] @ a @ [CHR 0x27])"

text \<open>A connection handle of the client library, a row of a dictionary cursor, and what
  \<^verbatim>\<open>run_native_query\<close> returns: the fetched rows, or the flag \<^verbatim>\<open>True\<close>.\<close>

type_synonym conn = nat

type_synonym row = "(string \<times> pyval) list"

datatype query_result = Flag bool | Rows "row list"

text \<open>The keyword arguments given to \<^verbatim>\<open>mysql.connector.connect\<close>: a dictionary in insertion
  order. \<^verbatim>\<open>ClientFlag.SSL\<close> is a constant of the client library.\<close>

datatype client_flag = SSL

datatype config_value = CVal pyval | CFlags "client_flag list"

type_synonym config = "(string \<times> config_value) list"

text \<open>A pandas data frame: its column names and its records, one list of values per row. What
  the pandas functions compute on it is not fixed here (see \<open>pandas\<close> below).\<close>

datatype dataframe = DataFrame (df_columns: "string list") (df_records: "pyval list list")

text \<open>Every call that leaves the handler: to the MySQL client library, to SQLAlchemy, to pandas
  and to \<^verbatim>\<open>print\<close>. A run of a handler method yields the list of calls it made, in order.\<close>

datatype call =
    MysqlConnect config
  | ConIsConnected conn
  | ConClose conn
  | ConCursor conn
  | CurExecute conn string
  | CurFetchall conn
  | ConCommit conn
  | CreateEngine string
  | ToSql string dataframe string
  | Print string
  | FromRecords query_result
  | DfJoin dataframe dataframe "string list" string string

text \<open>
  The libraries are not part of the repository. What each call of one method invocation answers
  is a parameter: a value, or the exception it raises. The handler's code is deterministic
  given these answers, so a statement for all \<open>outcomes\<close> is a statement for every behaviour
  of the server and of the client library.
\<close>

record outcomes =
  o_is_connected :: "bool raises"
  o_probe_close :: "unit raises"
  o_connect :: "conn raises"
  o_cursor :: "unit raises"
  o_use :: "unit raises"
  o_execute :: "unit raises"
  o_fetchall :: "row list raises"
  o_commit :: "unit raises"
  o_close :: "unit raises"

text \<open>An action: its result or exception, and the calls it made.\<close>

type_synonym 'a act = "'a raises \<times> call list"

definition lib_call :: "call \<Rightarrow> 'a raises \<Rightarrow> 'a act" where
  "lib_call c out = (out, [c])"

definition bind_act :: "'a act \<Rightarrow> ('a \<Rightarrow> 'b act) \<Rightarrow> 'b act" where
  "bind_act m f =
     (case m of
        (Inl e, cs) \<Rightarrow> (Inl e, cs)
      | (Inr a, cs) \<Rightarrow> (case f a of (r, cs') \<Rightarrow> (r, cs @ cs')))"

text \<open>\<^verbatim>\<open>try: m  except Exception as e: h(e)\<close>\<close>

definition try_except :: "'a act \<Rightarrow> (py_exception \<Rightarrow> 'a act) \<Rightarrow> 'a act" where
  "try_except m h =
     (case m of
        (Inl e, cs) \<Rightarrow> (case h e of (r, cs') \<Rightarrow> (r, cs @ cs'))
      | (Inr a, cs) \<Rightarrow> (Inr a, cs))"

text \<open>
  \<^verbatim>\<open>with closing(con) as con: body\<close>. Leaving the block calls \<^verbatim>\<open>con.close()\<close>, whether the
  body returned or raised; an exception of \<^verbatim>\<open>close\<close> replaces the body's. Both bodies of the
  source start with a method call on \<^verbatim>\<open>con\<close>: when \<^verbatim>\<open>con\<close> is \<^verbatim>\<open>None\<close> that raises
  AttributeError, and so does the \<^verbatim>\<open>close\<close> that follows, with no call to the library.
\<close>

definition with_closing ::
  "conn option \<Rightarrow> unit raises \<Rightarrow> (conn \<Rightarrow> 'a act) \<Rightarrow> 'a act" where
  "with_closing con close_out body =
     (case con of
        None \<Rightarrow> (Inl (attribute_error ''close''), [])
      | Some c \<Rightarrow>
          (case body c of (r, cs) \<Rightarrow>
             (case close_out of
                Inl e \<Rightarrow> (Inl e, cs @ [ConClose c])
              | Inr u \<Rightarrow> (r, cs @ [ConClose c]))))"

section \<open>The handler\<close>

text \<open>The fields \<^verbatim>\<open>__init__\<close> sets (\<^verbatim>\<open>mysql_url\<close>, \<^verbatim>\<open>parser\<close> and \<^verbatim>\<open>dialect\<close> are read by no
  method).\<close>

record handler =
  connection :: "conn option"
  host :: pyval
  port :: pyval
  user :: pyval
  database :: pyval
  password :: pyval
  ssl :: pyval
  ssl_ca :: pyval
  ssl_cert :: pyval
  ssl_key :: pyval

subsection \<open>connect\<close>

text \<open>The dictionary \<^verbatim>\<open>config\<close> that \<^verbatim>\<open>connect\<close> builds. \<^verbatim>\<open>self.ssl is True\<close> holds for the
  boolean \<^verbatim>\<open>True\<close> alone.\<close>

definition connect_config :: "handler \<Rightarrow> config" where
  "connect_config h =
     [(''host'', CVal (host h)), (''port'', CVal (port h)),
      (''user'', CVal (user h)), (''password'', CVal (password h))] @
     (if ssl h = PBool True then
        [(''client_flags'', CFlags [SSL])] @
        (if ssl_ca h \<noteq> PNone then [(''ssl_ca'', CVal (ssl_ca h))] else []) @
        (if ssl_cert h \<noteq> PNone then [(''ssl_cert'', CVal (ssl_cert h))] else []) @
        (if ssl_key h \<noteq> PNone then [(''ssl_key'', CVal (ssl_key h))] else [])
      else [])"

text \<open>\<^verbatim>\<open>connect\<close> stores the new handle and returns it; when the library raises, the field keeps
  its value.\<close>

definition connect :: "outcomes \<Rightarrow> handler \<Rightarrow> conn act \<times> handler" where
  "connect out h =
     (case o_connect out of
        Inl e \<Rightarrow> ((Inl e, [MysqlConnect (connect_config h)]), h)
      | Inr c \<Rightarrow> ((Inr c, [MysqlConnect (connect_config h)]), h\<lparr>connection := Some c\<rparr>))"

text \<open>\<^verbatim>\<open>__init__\<close>: \<^verbatim>\<open>kwargs.get\<close> gives \<^verbatim>\<open>None\<close> for a missing key; the constructor ends with
  \<^verbatim>\<open>self.connect()\<close>.\<close>

definition kwargs_get :: "(string \<rightharpoonup> pyval) \<Rightarrow> string \<Rightarrow> pyval" where
  "kwargs_get kw k = (case kw k of None \<Rightarrow> PNone | Some v \<Rightarrow> v)"

definition init_fields :: "(string \<rightharpoonup> pyval) \<Rightarrow> handler" where
  "init_fields kw =
     \<lparr>connection = None,
      host = kwargs_get kw ''host'', port = kwargs_get kw ''port'',
      user = kwargs_get kw ''user'', database = kwargs_get kw ''database'',
      password = kwargs_get kw ''password'', ssl = kwargs_get kw ''ssl'',
      ssl_ca = kwargs_get kw ''ssl_ca'', ssl_cert = kwargs_get kw ''ssl_cert'',
      ssl_key = kwargs_get kw ''ssl_key''\<rparr>"

definition init :: "outcomes \<Rightarrow> (string \<rightharpoonup> pyval) \<Rightarrow> unit act \<times> handler" where
  "init out kw =
     (case connect out (init_fields kw) of
        ((Inl e, cs), h) \<Rightarrow> ((Inl e, cs), h)
      | ((Inr c, cs), h) \<Rightarrow> ((Inr (), cs), h))"

subsection \<open>check\_status\<close>

text \<open>The body of the \<^verbatim>\<open>try\<close> block: \<^verbatim>\<open>is_connected\<close> inside \<^verbatim>\<open>with closing(con)\<close>.\<close>

definition probe :: "outcomes \<Rightarrow> handler \<Rightarrow> bool act" where
  "probe out h =
     with_closing (connection h) (o_probe_close out)
       (\<lambda>c. lib_call (ConIsConnected c) (o_is_connected out))"

definition check_status :: "outcomes \<Rightarrow> handler \<Rightarrow> bool act" where
  "check_status out h = try_except (probe out h) (\<lambda>e. (Inr False, []))"

subsection \<open>run\_native\_query\<close>

text \<open>The statement \<^verbatim>\<open>f"USE {self.database};"\<close>.\<close>

definition use_statement :: "handler \<Rightarrow> string" where
  "use_statement h = ''USE '' @ py_str (database h) @ '';''"

text \<open>
  The body of \<^verbatim>\<open>with closing(self.connection) as con\<close>: a cursor, the \<^verbatim>\<open>USE\<close> statement,
  the query, \<^verbatim>\<open>res = True\<close> replaced by the fetched rows unless \<^verbatim>\<open>fetchall\<close> raises, and
  the commit.
\<close>

definition execute_block :: "outcomes \<Rightarrow> string \<Rightarrow> string \<Rightarrow> conn \<Rightarrow> query_result act" where
  "execute_block out use_stmt query_str c =
     bind_act (lib_call (ConCursor c) (o_cursor out)) (\<lambda>cur.
     bind_act (lib_call (CurExecute c use_stmt) (o_use out)) (\<lambda>u.
     bind_act (lib_call (CurExecute c query_str) (o_execute out)) (\<lambda>u.
     bind_act
       (try_except
          (bind_act (lib_call (CurFetchall c) (o_fetchall out)) (\<lambda>rows. (Inr (Rows rows), [])))
          (\<lambda>e. (Inr (Flag True), []))) (\<lambda>res.
     bind_act (lib_call (ConCommit c) (o_commit out)) (\<lambda>u.
     (Inr res, []))))))"

text \<open>\<^verbatim>\<open>Exception(f"Error: {e}. Please check and retry!")\<close>\<close>

definition query_error :: "py_exception \<Rightarrow> py_exception" where
  "query_error e = PyExc ''Exception'' (''Error: '' @ exc_msg e @ ''. Please check and retry!'')"

text \<open>The \<^verbatim>\<open>try\<close> statement of \<^verbatim>\<open>run_native_query\<close>.\<close>

definition guarded_execute :: "outcomes \<Rightarrow> handler \<Rightarrow> string \<Rightarrow> query_result act" where
  "guarded_execute out h query_str =
     try_except
       (with_closing (connection h) (o_close out) (execute_block out (use_statement h) query_str))
       (\<lambda>e. (Inl (query_error e), []))"

text \<open>\<^verbatim>\<open>if not self.check_status(): self.connect()\<close> stands before the \<^verbatim>\<open>try\<close>.\<close>

definition run_native_query ::
  "outcomes \<Rightarrow> handler \<Rightarrow> string \<Rightarrow> query_result act \<times> handler" where
  "run_native_query out h query_str =
     (case check_status out h of
        (Inl e, cs) \<Rightarrow> ((Inl e, cs), h)
      | (Inr alive, cs) \<Rightarrow>
          if \<not> alive then
            (case connect out h of
               ((Inl e, cs'), h') \<Rightarrow> ((Inl e, cs @ cs'), h')
             | ((Inr c, cs'), h') \<Rightarrow>
                 (case guarded_execute out h' query_str of
                    (r, cs'') \<Rightarrow> ((r, cs @ cs' @ cs''), h')))
          else
            (case guarded_execute out h query_str of
               (r, cs'') \<Rightarrow> ((r, cs @ cs''), h)))"

fun is_connect :: "call \<Rightarrow> bool" where
  "is_connect (MysqlConnect cfg) = True"
| "is_connect c = False"

subsection \<open>select\_query\<close>

text \<open>
  The parser (\<^verbatim>\<open>mindsdb_sql\<close>) is not part of the repository. Of its syntax trees the handler
  uses the string form of a node, given here as a parameter \<open>node_str\<close> over an arbitrary
  type of nodes, and the shape of a from-clause: an identifier with its path \<^verbatim>\<open>parts\<close>, or a
  join with a \<^verbatim>\<open>left\<close> and a \<^verbatim>\<open>right\<close> side. Reading an attribute that the node does not
  have raises AttributeError, and \<^verbatim>\<open>parts[-1]\<close> of an empty list raises IndexError.
\<close>

datatype table_expr = Identifier (parts: "string list") | Join table_expr table_expr

definition no_attribute :: "string \<Rightarrow> string \<Rightarrow> py_exception" where
  "no_attribute cls a =
     PyExc ''AttributeError''
       ([CHR 0x27] @ cls @ [CHR 0x27] @ '' object has no attribute '' @
        [CHR 0x27] @ a @ [CHR 0x27])"

fun last_part :: "table_expr \<Rightarrow> string raises" where
  "last_part (Identifier ps) =
     (if ps = [] then Inl (PyExc ''IndexError'' ''list index out of range'') else Inr (last ps))"
| "last_part (Join l r) = Inl (no_attribute ''Join'' ''parts'')"

fun left_of :: "table_expr \<Rightarrow> table_expr raises" where
  "left_of (Join l r) = Inr l"
| "left_of (Identifier ps) = Inl (no_attribute ''Identifier'' ''left'')"

fun right_of :: "table_expr \<Rightarrow> table_expr raises" where
  "right_of (Join l r) = Inr r"
| "right_of (Identifier ps) = Inl (no_attribute ''Identifier'' ''right'')"

text \<open>\<^verbatim>\<open>sep.join(xs)\<close>\<close>

fun py_join :: "string \<Rightarrow> string list \<Rightarrow> string" where
  "py_join sep [] = []"
| "py_join sep [x] = x"
| "py_join sep (x # y # ys) = x @ sep @ py_join sep (y # ys)"

text \<open>The query text. A syntax-tree node is truthy, so \<^verbatim>\<open>if where_stmt\<close> holds exactly when the
  predicate is not \<^verbatim>\<open>None\<close>.\<close>

definition select_sql :: "('n \<Rightarrow> string) \<Rightarrow> 'n list \<Rightarrow> string \<Rightarrow> 'n option \<Rightarrow> string" where
  "select_sql node_str targets table_name where_stmt =
     ''SELECT '' @ py_join '','' (map node_str targets) @ '' FROM '' @ table_name @
     (case where_stmt of None \<Rightarrow> [] | Some w \<Rightarrow> '' WHERE '' @ node_str w)"

definition select_query ::
  "('n \<Rightarrow> string) \<Rightarrow> outcomes \<Rightarrow> handler \<Rightarrow> 'n list \<Rightarrow> table_expr \<Rightarrow> 'n option \<Rightarrow>
   query_result act \<times> handler" where
  "select_query node_str out h targets from_stmt where_stmt =
     (case last_part from_stmt of
        Inl e \<Rightarrow> ((Inl e, []), h)
      | Inr table_name \<Rightarrow>
          run_native_query out h (select_sql node_str targets table_name where_stmt))"

subsection \<open>select\_into\<close>

text \<open>What \<^verbatim>\<open>create_engine\<close> and \<^verbatim>\<open>to_sql\<close> answer during one \<^verbatim>\<open>select_into\<close>.\<close>

record persist_outcomes =
  o_create_engine :: "unit raises"
  o_to_sql :: "unit raises"

text \<open>\<^verbatim>\<open>f'mysql://{self.host}:{self.port}/{self.database}'\<close>\<close>

definition engine_url :: "handler \<Rightarrow> string" where
  "engine_url h =
     ''mysql://'' @ py_str (host h) @ '':'' @ py_str (port h) @ ''/'' @ py_str (database h)"

definition select_into_error :: "string \<Rightarrow> py_exception" where
  "select_into_error table =
     PyExc ''Exception'' (''Could not select into table '' @ table @ '', aborting.'')"

text \<open>The engine given to \<^verbatim>\<open>to_sql\<close> is recorded by its URL.\<close>

definition select_into :: "persist_outcomes \<Rightarrow> handler \<Rightarrow> string \<Rightarrow> dataframe \<Rightarrow> bool act" where
  "select_into po h table df =
     try_except
       (bind_act (lib_call (CreateEngine (engine_url h)) (o_create_engine po)) (\<lambda>con.
        bind_act (lib_call (ToSql table df (engine_url h)) (o_to_sql po)) (\<lambda>u.
        (Inr True, []))))
       (\<lambda>e. bind_act (lib_call (Print (exc_msg e)) (Inr ())) (\<lambda>u.
            (Inl (select_into_error table), [])))"

subsection \<open>join\<close>

text \<open>The two pandas functions that \<^verbatim>\<open>join\<close> uses are parameters: \<^verbatim>\<open>DataFrame.from_records\<close>
  and \<^verbatim>\<open>DataFrame.join(other, on, lsuffix, rsuffix)\<close>.\<close>

record pandas =
  from_records :: "query_result \<Rightarrow> dataframe raises"
  df_join :: "dataframe \<Rightarrow> dataframe \<Rightarrow> string list \<Rightarrow> string \<Rightarrow> string \<Rightarrow> dataframe raises"

text \<open>The parsed statement: \<^verbatim>\<open>stmt.targets\<close>, \<^verbatim>\<open>stmt.from_table\<close>, \<^verbatim>\<open>stmt.where\<close>.\<close>

record 'n select_stmt =
  targets :: "'n list"
  from_table :: table_expr
  where_stmt :: "'n option"

text \<open>\<^verbatim>\<open>if into\<close>: a string is truthy when it is not empty.\<close>

definition destination :: "string option \<Rightarrow> string option" where
  "destination into = (case into of None \<Rightarrow> None | Some t \<Rightarrow> if t = [] then None else Some t)"

text \<open>The pandas part of \<^verbatim>\<open>join\<close> and the optional \<^verbatim>\<open>select_into\<close>, on the handler as the two
  queries left it.\<close>

definition merge_results ::
  "pandas \<Rightarrow> persist_outcomes \<Rightarrow> handler \<Rightarrow> string list \<Rightarrow> string option \<Rightarrow>
   query_result \<Rightarrow> query_result \<Rightarrow> dataframe act" where
  "merge_results pd po h on into local_result external_result =
     bind_act (lib_call (FromRecords local_result) (from_records pd local_result)) (\<lambda>local_df.
     bind_act (lib_call (FromRecords external_result) (from_records pd external_result))
       (\<lambda>external_df.
     bind_act (lib_call (DfJoin local_df external_df on ''_left'' ''_right'')
                 (df_join pd local_df external_df on ''_left'' ''_right'')) (\<lambda>df.
     bind_act (case destination into of
                 None \<Rightarrow> (Inr True, [])
               | Some table \<Rightarrow> select_into po h table df) (\<lambda>u.
     (Inr df, [])))))"

text \<open>
  \<^verbatim>\<open>data_handler\<close> is any object with a \<^verbatim>\<open>select_query\<close> method, possibly the handler itself:
  its method is a parameter that receives the handler's state and returns it.
\<close>

definition join ::
  "('n \<Rightarrow> string) \<Rightarrow> pandas \<Rightarrow> outcomes \<Rightarrow>
   ('n list \<Rightarrow> table_expr \<Rightarrow> 'n option \<Rightarrow> handler \<Rightarrow> query_result act \<times> handler) \<Rightarrow>
   persist_outcomes \<Rightarrow> handler \<Rightarrow> 'n select_stmt \<Rightarrow> string option \<Rightarrow> dataframe act \<times> handler" where
  "join node_str pd out data_handler_select_query po h stmt into =
     (case left_of (from_table stmt) of
        Inl e \<Rightarrow> ((Inl e, []), h)
      | Inr l \<Rightarrow>
     (case select_query node_str out h (targets stmt) l (where_stmt stmt) of
        ((Inl e, cs1), h1) \<Rightarrow> ((Inl e, cs1), h1)
      | ((Inr local_result, cs1), h1) \<Rightarrow>
     (case right_of (from_table stmt) of
        Inl e \<Rightarrow> ((Inl e, cs1), h1)
      | Inr r \<Rightarrow>
     (case data_handler_select_query (targets stmt) r (where_stmt stmt) h1 of
        ((Inl e, cs2), h2) \<Rightarrow> ((Inl e, cs1 @ cs2), h2)
      | ((Inr external_result, cs2), h2) \<Rightarrow>
     (case merge_results pd po h2 (map node_str (targets stmt)) into
             local_result external_result of
        (r, cs3) \<Rightarrow> ((r, cs1 @ cs2 @ cs3), h2))))))"

text \<open>The calls \<^verbatim>\<open>select_into\<close> may make for a given engine URL, table and data frame:
  \<^verbatim>\<open>create_engine(url)\<close>, \<^verbatim>\<open>to_sql\<close> on that engine, and \<^verbatim>\<open>print\<close>.\<close>

fun persistence_call :: "string \<Rightarrow> string \<Rightarrow> dataframe \<Rightarrow> call \<Rightarrow> bool" where
  "persistence_call url table df (CreateEngine u) = (u = url)"
| "persistence_call url table df (ToSql t d u) = (t = table \<and> d = df \<and> u = url)"
| "persistence_call url table df (Print m) = True"
| "persistence_call url table df c = False"

section \<open>Example inputs\<close>

text \<open>The keyword arguments of the module's own \<^verbatim>\<open>__main__\<close> block, as a handler.\<close>

definition main_kwargs :: "string \<rightharpoonup> pyval" where
  "main_kwargs =
     [''host'' \<mapsto> PStr ''localhost'', ''port'' \<mapsto> PStr ''3306'', ''user'' \<mapsto> PStr ''root'',
      ''password'' \<mapsto> PStr ''root'', ''database'' \<mapsto> PStr ''test'', ''ssl'' \<mapsto> PBool False]"

definition main_handler :: handler where
  "main_handler = init_fields main_kwargs"

text \<open>Answers of a server on which every call succeeds, the statement returning no rows.\<close>

definition all_ok :: outcomes where
  "all_ok =
     \<lparr>o_is_connected = Inr True, o_probe_close = Inr (), o_connect = Inr 2,
      o_cursor = Inr (), o_use = Inr (), o_execute = Inr (), o_fetchall = Inr [],
      o_commit = Inr (), o_close = Inr ()\<rparr>"

text \<open>A handler whose connection has been closed, a server that refuses connections, a
  statement without a result set, and a statement that the server rejects.\<close>

definition closed_handler :: handler where
  "closed_handler = main_handler\<lparr>connection := Some 0\<rparr>"

definition refused :: outcomes where
  "refused = all_ok\<lparr>o_is_connected := Inr False,
     o_connect := Inl (PyExc ''InterfaceError'' ''2003: Can't connect to MySQL server'')\<rparr>"

definition no_result_set :: outcomes where
  "no_result_set = all_ok\<lparr>o_is_connected := Inr False,
     o_fetchall := Inl (PyExc ''InterfaceError'' ''No result set to fetch from.'')\<rparr>"

definition rejected :: outcomes where
  "rejected = all_ok\<lparr>o_is_connected := Inr False,
     o_execute := Inl (PyExc ''ProgrammingError'' ''1064 (42000): You have an error in your SQL syntax'')\<rparr>"

definition persist_ok :: persist_outcomes where
  "persist_ok = \<lparr>o_create_engine = Inr (), o_to_sql = Inr ()\<rparr>"

text \<open>
  A handler as \<^verbatim>\<open>__init__\<close> leaves it on a server that accepts the connection, and the
  answers of the client library to a \<^verbatim>\<open>CREATE TABLE\<close> sent through it: the handle is alive
  when probed, and, closed by the probe's \<^verbatim>\<open>with closing\<close>, it gives no cursor.
\<close>

definition fresh_handler :: handler where
  "fresh_handler = snd (init all_ok main_kwargs)"

definition probed_handle_closed :: outcomes where
  "probed_handle_closed = all_ok\<lparr>
     o_cursor := Inl (PyExc ''OperationalError'' ''MySQL Connection not available.''),
     o_fetchall := Inl (PyExc ''InterfaceError'' ''No result set to fetch from.'')\<rparr>"

text \<open>A stand-in for pandas in the examples (not a model of it): \<open>from_records\<close> takes the
  columns of the first row, \<open>df_join\<close> pairs the rows by position and suffixes every column.\<close>

definition pandas_stub :: pandas where
  "pandas_stub =
     \<lparr>from_records = (\<lambda>res. case res of
          Flag b \<Rightarrow> Inl (PyExc ''TypeError'' ''object is not iterable'')
        | Rows rs \<Rightarrow> Inr (DataFrame (case rs of [] \<Rightarrow> [] | r # rest \<Rightarrow> map fst r) (map (map snd) rs))),
      df_join = (\<lambda>l r on ls rs.
          Inr (DataFrame (map (\<lambda>c. c @ ls) (df_columns l) @ map (\<lambda>c. c @ rs) (df_columns r))
                 (map (\<lambda>(a, b). a @ b) (zip (df_records l) (df_records r)))))\<rparr>"

text \<open>The join of the \<^verbatim>\<open>__main__\<close> block: \<^verbatim>\<open>SELECT test_col FROM test_mdb JOIN test_mdb2\<close>,
  each table holding the one row \<^verbatim>\<open>test_col = 1\<close>.\<close>

definition one_row :: outcomes where
  "one_row = all_ok\<lparr>o_is_connected := Inr False, o_fetchall := Inr [[(''test_col'', PInt 1)]]\<rparr>"

definition main_join_stmt :: "string select_stmt" where
  "main_join_stmt =
     \<lparr>targets = [''test_col''],
      from_table = Join (Identifier [''test_mdb'']) (Identifier [''test_mdb2'']),
      where_stmt = None\<rparr>"

section \<open>Properties of connect\<close>

lemma py_str_examples:
  "py_str (PInt 3306) = ''3306''" "py_str (PInt (- 5)) = ''-5''" "py_str (PInt 0) = ''0''"
  "py_str PNone = ''None''" "py_str (PBool True) = ''True''" "py_str (PStr ''test'') = ''test''"
  by (simp_all add: string_of_int_def string_of_nat.simps digit_char_def)

lemma connect_calls: "snd (fst (connect out h)) = [MysqlConnect (connect_config h)]"
  by (simp add: connect_def split: sum.splits)

lemma main_handler_simps:
  "connection main_handler = None" "host main_handler = PStr ''localhost''"
  "port main_handler = PStr ''3306''" "user main_handler = PStr ''root''"
  "database main_handler = PStr ''test''" "password main_handler = PStr ''root''"
  "ssl main_handler = PBool False" "ssl_ca main_handler = PNone"
  "ssl_cert main_handler = PNone" "ssl_key main_handler = PNone"
  by (simp_all add: main_handler_def init_fields_def main_kwargs_def kwargs_get_def)

text \<open>
  C7. For every handler, \<^verbatim>\<open>connect\<close> calls the client library once, with a dictionary that
  holds host, port, user and password, and that holds each of \<^verbatim>\<open>ssl_ca\<close>, \<^verbatim>\<open>ssl_cert\<close> and
  \<^verbatim>\<open>ssl_key\<close> exactly when TLS is requested (\<^verbatim>\<open>ssl is True\<close>) and that path is not \<^verbatim>\<open>None\<close>;
  when TLS is not requested the dictionary has the four base keys only.
\<close>

theorem connect_config_tls_material:
  "snd (fst (connect out h)) = [MysqlConnect (connect_config h)]
   \<and> map_of (connect_config h) ''host'' = Some (CVal (host h))
   \<and> map_of (connect_config h) ''port'' = Some (CVal (port h))
   \<and> map_of (connect_config h) ''user'' = Some (CVal (user h))
   \<and> map_of (connect_config h) ''password'' = Some (CVal (password h))
   \<and> map_of (connect_config h) ''ssl_ca'' =
       (if ssl h = PBool True \<and> ssl_ca h \<noteq> PNone then Some (CVal (ssl_ca h)) else None)
   \<and> map_of (connect_config h) ''ssl_cert'' =
       (if ssl h = PBool True \<and> ssl_cert h \<noteq> PNone then Some (CVal (ssl_cert h)) else None)
   \<and> map_of (connect_config h) ''ssl_key'' =
       (if ssl h = PBool True \<and> ssl_key h \<noteq> PNone then Some (CVal (ssl_key h)) else None)
   \<and> (ssl h \<noteq> PBool True \<longrightarrow>
        map fst (connect_config h) = [''host'', ''port'', ''user'', ''password''])"
  by (simp add: connect_calls) (simp add: connect_config_def)

theorem connect_config_tls_material_witness:
  "ssl (main_handler\<lparr>ssl_ca := PStr ''/ca.pem''\<rparr>) \<noteq> PBool True
   \<and> map fst (connect_config (main_handler\<lparr>ssl_ca := PStr ''/ca.pem''\<rparr>)) =
       [''host'', ''port'', ''user'', ''password'']
   \<and> map_of (connect_config (main_handler\<lparr>ssl := PBool True, ssl_ca := PStr ''/ca.pem''\<rparr>))
       ''ssl_ca'' = Some (CVal (PStr ''/ca.pem''))
   \<and> map_of (connect_config (main_handler\<lparr>ssl := PBool True, ssl_ca := PStr ''/ca.pem''\<rparr>))
       ''ssl_key'' = None"
  using connect_config_tls_material [of all_ok "main_handler\<lparr>ssl_ca := PStr ''/ca.pem''\<rparr>"]
    connect_config_tls_material
      [of all_ok "main_handler\<lparr>ssl := PBool True, ssl_ca := PStr ''/ca.pem''\<rparr>"]
  by (auto simp: main_handler_simps)

text \<open>
  C10. TLS is enabled only when \<^verbatim>\<open>ssl\<close> is the boolean \<^verbatim>\<open>True\<close>: for every other value, truthy
  ones such as the string \<^verbatim>\<open>"true"\<close> or the integer 1 included, the dictionary given to the
  client library has no \<^verbatim>\<open>client_flags\<close>, \<^verbatim>\<open>ssl_ca\<close>, \<^verbatim>\<open>ssl_cert\<close> or \<^verbatim>\<open>ssl_key\<close> entry,
  whatever the TLS paths are.
\<close>

theorem connect_tls_only_when_ssl_is_True:
  assumes "ssl h \<noteq> PBool True"
  shows "snd (fst (connect out h)) =
           [MysqlConnect [(''host'', CVal (host h)), (''port'', CVal (port h)),
                          (''user'', CVal (user h)), (''password'', CVal (password h))]]
         \<and> map_of (connect_config h) ''client_flags'' = None
         \<and> map_of (connect_config h) ''ssl_ca'' = None
         \<and> map_of (connect_config h) ''ssl_cert'' = None
         \<and> map_of (connect_config h) ''ssl_key'' = None"
  using assms by (simp add: connect_calls) (simp add: connect_config_def)

theorem connect_tls_only_when_ssl_is_True_witness:
  "map_of (connect_config (main_handler\<lparr>ssl := PStr ''true'', ssl_ca := PStr ''/ca.pem'',
       ssl_cert := PStr ''/cert.pem'', ssl_key := PStr ''/key.pem''\<rparr>)) ''client_flags'' = None
   \<and> map_of (connect_config (main_handler\<lparr>ssl := PStr ''true'', ssl_ca := PStr ''/ca.pem'',
       ssl_cert := PStr ''/cert.pem'', ssl_key := PStr ''/key.pem''\<rparr>)) ''ssl_ca'' = None
   \<and> map_of (connect_config (main_handler\<lparr>ssl := PInt 1, ssl_ca := PStr ''/ca.pem''\<rparr>))
       ''ssl_ca'' = None"
  using connect_tls_only_when_ssl_is_True
      [of "main_handler\<lparr>ssl := PStr ''true'', ssl_ca := PStr ''/ca.pem'',
             ssl_cert := PStr ''/cert.pem'', ssl_key := PStr ''/key.pem''\<rparr>" all_ok]
    connect_tls_only_when_ssl_is_True
      [of "main_handler\<lparr>ssl := PInt 1, ssl_ca := PStr ''/ca.pem''\<rparr>" all_ok]
  by auto

section \<open>Properties of check\_status\<close>

lemma check_status_fst:
  "fst (check_status out h) =
     Inr (case connection h of
            None \<Rightarrow> False
          | Some c \<Rightarrow> (case o_probe_close out of
                        Inl e \<Rightarrow> False
                      | Inr u \<Rightarrow> (case o_is_connected out of Inl e \<Rightarrow> False | Inr b \<Rightarrow> b)))"
  by (simp add: check_status_def probe_def with_closing_def try_except_def lib_call_def
      split: option.splits sum.splits prod.splits)

lemma check_status_snd:
  "snd (check_status out h) =
     (case connection h of None \<Rightarrow> [] | Some c \<Rightarrow> [ConIsConnected c, ConClose c])"
  by (simp add: check_status_def probe_def with_closing_def try_except_def lib_call_def
      split: option.splits sum.splits prod.splits)

text \<open>
  C8. \<^verbatim>\<open>check_status\<close> returns a boolean and never raises, whatever the connection field
  holds and whatever the library answers. It returns \<^verbatim>\<open>True\<close> exactly when there is a handle,
  \<^verbatim>\<open>is_connected\<close> returned \<^verbatim>\<open>True\<close> and the closing of the handle did not raise; when the probe
  (the \<^verbatim>\<open>try\<close> body) raises, the result is \<^verbatim>\<open>False\<close>; otherwise it is what the probe returned.
\<close>

theorem check_status_never_raises:
  "(\<exists>b. fst (check_status out h) = Inr b)
   \<and> fst (check_status out h) =
       Inr (connection h \<noteq> None \<and> o_is_connected out = Inr True \<and> o_probe_close out = Inr ())
   \<and> (\<forall>e. fst (probe out h) = Inl e \<longrightarrow>
          fst (check_status out h) = Inr False)
   \<and> (\<forall>b. fst (probe out h) = Inr b \<longrightarrow>
          fst (check_status out h) = Inr b)"
proof -
  have "fst (check_status out h) =
      Inr (connection h \<noteq> None \<and> o_is_connected out = Inr True \<and> o_probe_close out = Inr ())"
    by (auto simp add: check_status_fst split: option.splits sum.splits)
  moreover have "fst (check_status out h) = Inr False" if "fst (probe out h) = Inl e" for e
    using that by (auto simp add: check_status_def try_except_def split: prod.splits sum.splits)
  moreover have "fst (check_status out h) = Inr b" if "fst (probe out h) = Inr b" for b
    using that by (auto simp add: check_status_def try_except_def split: prod.splits sum.splits)
  ultimately show ?thesis
    by simp
qed

theorem check_status_never_raises_witness:
  "fst (probe all_ok main_handler) = Inl (attribute_error ''close'')
   \<and> fst (check_status all_ok main_handler) = Inr False
   \<and> fst (probe (all_ok\<lparr>o_is_connected := Inl (PyExc ''OperationalError'' ''gone away'')\<rparr>)
            (main_handler\<lparr>connection := Some 0\<rparr>))
       = Inl (PyExc ''OperationalError'' ''gone away'')
   \<and> fst (check_status (all_ok\<lparr>o_is_connected := Inl (PyExc ''OperationalError'' ''gone away'')\<rparr>)
            (main_handler\<lparr>connection := Some 0\<rparr>)) = Inr False"
  using check_status_never_raises [of all_ok main_handler]
    check_status_never_raises
      [of "all_ok\<lparr>o_is_connected := Inl (PyExc ''OperationalError'' ''gone away'')\<rparr>"
          "main_handler\<lparr>connection := Some 0\<rparr>"]
  by (auto simp add: probe_def with_closing_def lib_call_def main_handler_simps all_ok_def)

section \<open>Properties of run\_native\_query\<close>

lemma execute_block_no_connect:
  "c' \<in> set (snd (execute_block out u q c)) \<Longrightarrow> \<not> is_connect c'"
  by (auto simp add: execute_block_def bind_act_def lib_call_def try_except_def
      split: sum.splits prod.splits)

lemma guarded_execute_no_connect:
  "c' \<in> set (snd (guarded_execute out h q)) \<Longrightarrow> \<not> is_connect c'"
proof (cases "connection h")
  case None
  then show "c' \<in> set (snd (guarded_execute out h q)) \<Longrightarrow> \<not> is_connect c'"
    by (simp add: guarded_execute_def with_closing_def try_except_def)
next
  case (Some c)
  obtain r cs where eb: "execute_block out (use_statement h) q c = (r, cs)"
    by (cases "execute_block out (use_statement h) q c")
  have cs: "\<And>x. x \<in> set cs \<Longrightarrow> \<not> is_connect x"
    using execute_block_no_connect [of _ out "use_statement h" q c] by (simp add: eb)
  show "c' \<in> set (snd (guarded_execute out h q)) \<Longrightarrow> \<not> is_connect c'"
    using cs by (auto simp add: guarded_execute_def with_closing_def try_except_def Some eb
        split: sum.splits)
qed

lemma check_status_no_connect:
  "c' \<in> set (snd (check_status out h)) \<Longrightarrow> \<not> is_connect c'"
  by (auto simp add: check_status_snd split: option.splits)

lemma run_native_query_alive:
  assumes "fst (check_status out h) = Inr True"
  shows "(run_native_query out h q) =
    ((fst (guarded_execute out h q), snd (check_status out h) @ snd (guarded_execute out h q)), h :: handler)"
    (is "(?l) = _")
  using assms by (auto simp add: run_native_query_def split: prod.splits sum.splits)

lemma run_native_query_connect_fails:
  assumes "fst (check_status out h) = Inr False" "o_connect out = Inl e"
  shows "(run_native_query out h q) =
    ((Inl e, snd (check_status out h) @ [MysqlConnect (connect_config h)]), h)"
  using assms by (auto simp add: run_native_query_def connect_def split: prod.splits sum.splits)

lemma run_native_query_reconnected:
  assumes "fst (check_status out h) = Inr False" "o_connect out = Inr c"
  shows "(run_native_query out h q) =
    ((fst (guarded_execute out (h\<lparr>connection := Some c\<rparr>) q),
      snd (check_status out h) @ [MysqlConnect (connect_config h)] @
      snd (guarded_execute out (h\<lparr>connection := Some c\<rparr>) q)), h\<lparr>connection := Some c\<rparr>)"
  using assms by (auto simp add: run_native_query_def connect_def split: prod.splits sum.splits)

lemma check_status_cases:
  "fst (check_status out h) = Inr True \<or> fst (check_status out h) = Inr False"
  by (simp add: check_status_fst)

lemma alive_connection:
  "fst (check_status out h) = Inr True \<Longrightarrow> \<exists>c. connection h = Some c"
  by (simp add: check_status_fst split: option.splits)

text \<open>
  C2, as amended. \<^verbatim>\<open>run_native_query\<close> first probes with \<^verbatim>\<open>check_status\<close>; it calls
  \<^verbatim>\<open>connect\<close> once, right after the probe, exactly when the probe reports not-alive, and never
  again. When that \<^verbatim>\<open>connect\<close> raises, the library's exception reaches the caller as it is
  (the call stands before the \<^verbatim>\<open>try\<close> statement, so it is not wrapped), and nothing is
  executed.
\<close>

theorem run_native_query_single_reconnect:
  "\<exists>alive rest.
     fst (check_status out h) = Inr alive
     \<and> snd (fst (run_native_query out h q)) =
         snd (check_status out h) @
         (if alive then [] else [MysqlConnect (connect_config h)]) @ rest
     \<and> (\<forall>c \<in> set (snd (check_status out h) @ rest). \<not> is_connect c)
     \<and> (\<forall>e. \<not> alive \<and> o_connect out = Inl e \<longrightarrow>
            fst (fst (run_native_query out h q)) = Inl e \<and> rest = [])"
proof (cases "fst (check_status out h) = Inr True")
  case True
  have "\<forall>c \<in> set (snd (check_status out h) @ snd (guarded_execute out h q)). \<not> is_connect c"
    using check_status_no_connect guarded_execute_no_connect by auto
  with True show ?thesis
    by (intro exI [of _ True] exI [of _ "snd (guarded_execute out h q)"])
      (simp add: run_native_query_alive)
next
  case False
  then have dead: "fst (check_status out h) = Inr False"
    using check_status_cases [of out h] by simp
  show ?thesis
  proof (cases "o_connect out")
    case (Inl e)
    have "\<forall>c \<in> set (snd (check_status out h) @ []). \<not> is_connect c"
      using check_status_no_connect by auto
    then show ?thesis
      using dead Inl
      by (intro exI [of _ False] exI [of _ "[]"])
        (simp add: run_native_query_connect_fails)
  next
    case (Inr c)
    have "\<forall>x \<in> set (snd (check_status out h) @
             snd (guarded_execute out (h\<lparr>connection := Some c\<rparr>) q)). \<not> is_connect x"
      using check_status_no_connect guarded_execute_no_connect by auto
    then show ?thesis
      using dead Inr
      by (intro exI [of _ False]
          exI [of _ "snd (guarded_execute out (h\<lparr>connection := Some c\<rparr>) q)"])
        (simp add: run_native_query_reconnected)
  qed
qed

lemma closed_handler_simps:
  "connection closed_handler = Some 0" "host closed_handler = PStr ''localhost''"
  "port closed_handler = PStr ''3306''" "user closed_handler = PStr ''root''"
  "database closed_handler = PStr ''test''" "password closed_handler = PStr ''root''"
  "ssl closed_handler = PBool False" "ssl_ca closed_handler = PNone"
  "ssl_cert closed_handler = PNone" "ssl_key closed_handler = PNone"
  by (simp_all add: closed_handler_def main_handler_simps)

lemma refused_simps:
  "o_is_connected refused = Inr False" "o_probe_close refused = Inr ()"
  "o_connect refused = Inl (PyExc ''InterfaceError'' ''2003: Can't connect to MySQL server'')"
  by (simp_all add: refused_def all_ok_def)

theorem run_native_query_single_reconnect_witness:
  "fst (check_status refused closed_handler) = Inr False
   \<and> fst (fst (run_native_query refused closed_handler ''SHOW TABLES;'')) =
       Inl (PyExc ''InterfaceError'' ''2003: Can't connect to MySQL server'')
   \<and> snd (fst (run_native_query refused closed_handler ''SHOW TABLES;'')) =
       [ConIsConnected 0, ConClose 0, MysqlConnect (connect_config closed_handler)]"
  using run_native_query_single_reconnect [of refused closed_handler "''SHOW TABLES;''"]
  by (auto simp add: check_status_fst check_status_snd closed_handler_simps refused_simps)

text \<open>
  C2, as stated, fails: with a closed connection and a server that refuses the reconnect,
  the caller receives the library's InterfaceError, not the \<^verbatim>\<open>Error: ... Please check and retry!\<close>
  exception that wraps execution failures.
\<close>

theorem reconnect_failure_wrapped_counterexample:
  "fst (check_status refused closed_handler) = Inr False
   \<and> o_connect refused = Inl (PyExc ''InterfaceError'' ''2003: Can't connect to MySQL server'')
   \<and> fst (fst (run_native_query refused closed_handler ''SHOW TABLES;'')) \<noteq>
       Inl (query_error (PyExc ''InterfaceError'' ''2003: Can't connect to MySQL server''))"
  by (simp add: check_status_fst closed_handler_simps refused_simps
      run_native_query_connect_fails query_error_def)

lemma guarded_execute_no_rows:
  assumes "connection h = Some c" "o_cursor out = Inr ()" "o_use out = Inr ()"
    "o_execute out = Inr ()" "o_fetchall out = Inl e" "o_commit out = Inr ()" "o_close out = Inr ()"
  shows "guarded_execute out h q =
    (Inr (Flag True),
     [ConCursor c, CurExecute c (use_statement h), CurExecute c q, CurFetchall c, ConCommit c,
      ConClose c])"
  using assms
  by (simp add: guarded_execute_def with_closing_def try_except_def execute_block_def
      bind_act_def lib_call_def)

lemma guarded_execute_rows:
  assumes "connection h = Some c" "o_cursor out = Inr ()" "o_use out = Inr ()"
    "o_execute out = Inr ()" "o_fetchall out = Inr rows" "o_commit out = Inr ()" "o_close out = Inr ()"
  shows "guarded_execute out h q =
    (Inr (Rows rows),
     [ConCursor c, CurExecute c (use_statement h), CurExecute c q, CurFetchall c, ConCommit c,
      ConClose c])"
  using assms
  by (simp add: guarded_execute_def with_closing_def try_except_def execute_block_def
      bind_act_def lib_call_def)

lemma guarded_execute_fails:
  assumes "connection h = Some c" "o_cursor out = Inr ()" "o_use out = Inr ()"
    "o_execute out = Inl e"
  shows "guarded_execute out h q =
    (Inl (query_error (case o_close out of Inl e' \<Rightarrow> e' | Inr u \<Rightarrow> e)),
     [ConCursor c, CurExecute c (use_statement h), CurExecute c q, ConClose c])"
  using assms
  by (simp add: guarded_execute_def with_closing_def try_except_def execute_block_def
      bind_act_def lib_call_def split: sum.splits)

text \<open>
  After a reconnect a statement without a result set gives the flag \<^verbatim>\<open>True\<close>: the probe
  reports not-alive, \<^verbatim>\<open>connect\<close> answers with a new handle, cursor, \<^verbatim>\<open>USE\<close>, the statement,
  commit and close succeed on it, and the exception of \<^verbatim>\<open>fetchall\<close> is caught.
\<close>

lemma run_native_query_no_result_set_after_reconnect:
  assumes "fst (check_status out h) = Inr False" and "o_connect out = Inr c"
    and "o_cursor out = Inr ()" and "o_use out = Inr ()" and "o_execute out = Inr ()"
    and "o_fetchall out = Inl e"
    and "o_commit out = Inr ()" and "o_close out = Inr ()"
  shows "run_native_query out h q =
    ((Inr (Flag True),
      snd (check_status out h) @
      [MysqlConnect (connect_config h), ConCursor c, CurExecute c (use_statement h),
       CurExecute c q, CurFetchall c, ConCommit c, ConClose c]),
     h\<lparr>connection := Some c\<rparr>)"
proof -
  have "connection (h\<lparr>connection := Some c\<rparr>) = Some c"
    by simp
  from guarded_execute_no_rows [OF this assms(3-)] show ?thesis
    by (simp add: run_native_query_reconnected [OF assms(1,2)] use_statement_def)
qed

lemma no_result_set_simps:
  "o_is_connected no_result_set = Inr False" "o_probe_close no_result_set = Inr ()"
  "o_connect no_result_set = Inr 2" "o_cursor no_result_set = Inr ()"
  "o_use no_result_set = Inr ()" "o_execute no_result_set = Inr ()"
  "o_fetchall no_result_set = Inl (PyExc ''InterfaceError'' ''No result set to fetch from.'')"
  "o_commit no_result_set = Inr ()" "o_close no_result_set = Inr ()"
  by (simp_all add: no_result_set_def all_ok_def)

lemma create_table_after_reconnect:
  "fst (fst (run_native_query no_result_set closed_handler
       ''CREATE TABLE test_mdb (test_col INT)'')) = Inr (Flag True)"
proof -
  have "fst (check_status no_result_set closed_handler) = Inr False"
    by (simp add: check_status_fst no_result_set_simps closed_handler_simps)
  from run_native_query_no_result_set_after_reconnect [OF this no_result_set_simps(3-)]
  show ?thesis
    by simp
qed

text \<open>
  When the probe reports alive, no \<^verbatim>\<open>connect\<close> follows: the cursor is asked of the very handle
  that \<^verbatim>\<open>check_status\<close> has just closed. If that request raises, so does \<^verbatim>\<open>run_native_query\<close>,
  and neither the statement nor \<^verbatim>\<open>fetchall\<close> is reached.
\<close>

lemma run_native_query_alive_uses_probed_handle:
  assumes "fst (check_status out h) = Inr True"
  shows "\<exists>c rest. connection h = Some c
    \<and> snd (fst (run_native_query out h q)) = [ConIsConnected c, ConClose c, ConCursor c] @ rest"
proof -
  from assms obtain c where c: "connection h = Some c"
    using alive_connection by blast
  have "\<exists>rest. snd (guarded_execute out h q) = ConCursor c # rest"
    by (simp add: guarded_execute_def with_closing_def try_except_def execute_block_def
        bind_act_def lib_call_def c split: sum.splits prod.splits)
  then show ?thesis
    using assms c by (auto simp add: run_native_query_alive check_status_snd)
qed

lemma run_native_query_alive_cursor_fails:
  assumes "fst (check_status out h) = Inr True" and "o_cursor out = Inl e"
  shows "\<exists>c. connection h = Some c \<and>
    run_native_query out h q =
      ((Inl (query_error (case o_close out of Inl e' \<Rightarrow> e' | Inr u \<Rightarrow> e)),
        [ConIsConnected c, ConClose c, ConCursor c, ConClose c]), h)"
proof -
  from assms(1) obtain c where c: "connection h = Some c"
    using alive_connection by blast
  have "guarded_execute out h q =
      (Inl (query_error (case o_close out of Inl e' \<Rightarrow> e' | Inr u \<Rightarrow> e)),
       [ConCursor c, ConClose c])"
    by (simp add: guarded_execute_def with_closing_def try_except_def execute_block_def
        bind_act_def lib_call_def c assms(2) split: sum.splits)
  then show ?thesis
    using assms(1) c by (simp add: run_native_query_alive check_status_snd)
qed

lemma fresh_handler_simps:
  "connection fresh_handler = Some 2" "host fresh_handler = PStr ''localhost''"
  "port fresh_handler = PStr ''3306''" "user fresh_handler = PStr ''root''"
  "database fresh_handler = PStr ''test''" "password fresh_handler = PStr ''root''"
  "ssl fresh_handler = PBool False" "ssl_ca fresh_handler = PNone"
  "ssl_cert fresh_handler = PNone" "ssl_key fresh_handler = PNone"
  by (simp_all add: fresh_handler_def init_def connect_def all_ok_def init_fields_def
      main_kwargs_def kwargs_get_def)

lemma probed_handle_closed_simps:
  "o_is_connected probed_handle_closed = Inr True" "o_probe_close probed_handle_closed = Inr ()"
  "o_connect probed_handle_closed = Inr 2"
  "o_cursor probed_handle_closed =
     Inl (PyExc ''OperationalError'' ''MySQL Connection not available.'')"
  "o_use probed_handle_closed = Inr ()" "o_execute probed_handle_closed = Inr ()"
  "o_fetchall probed_handle_closed =
     Inl (PyExc ''InterfaceError'' ''No result set to fetch from.'')"
  "o_commit probed_handle_closed = Inr ()" "o_close probed_handle_closed = Inr ()"
  by (simp_all add: probed_handle_closed_def all_ok_def)

text \<open>
  C3 fails on a freshly connected handler. The statement \<^verbatim>\<open>CREATE TABLE test_mdb (test_col INT)\<close>
  is valid and has no result set, yet \<^verbatim>\<open>run_native_query\<close> raises instead of returning the flag
  \<^verbatim>\<open>True\<close>: the probe reports alive and closes the handle, no \<^verbatim>\<open>connect\<close> follows, the cursor
  is asked of the closed handle, and the client library's error is wrapped and raised. The
  statement is never sent.
\<close>

theorem run_native_query_fresh_handle_raises:
  "fst (check_status probed_handle_closed fresh_handler) = Inr True
   \<and> run_native_query probed_handle_closed fresh_handler
         ''CREATE TABLE test_mdb (test_col INT)'' =
       ((Inl (PyExc ''Exception''
                ''Error: MySQL Connection not available.. Please check and retry!''),
         [ConIsConnected 2, ConClose 2, ConCursor 2, ConClose 2]),
        fresh_handler)
   \<and> fst (fst (run_native_query probed_handle_closed fresh_handler
         ''CREATE TABLE test_mdb (test_col INT)'')) \<noteq> Inr (Flag True)"
proof -
  have alive: "fst (check_status probed_handle_closed fresh_handler) = Inr True"
    by (simp add: check_status_fst probed_handle_closed_simps fresh_handler_simps)
  have g: "guarded_execute probed_handle_closed fresh_handler
      ''CREATE TABLE test_mdb (test_col INT)'' =
      (Inl (PyExc ''Exception''
              ''Error: MySQL Connection not available.. Please check and retry!''),
       [ConCursor 2, ConClose 2])"
    by (simp add: guarded_execute_def with_closing_def try_except_def execute_block_def
        bind_act_def lib_call_def query_error_def probed_handle_closed_simps fresh_handler_simps)
  show ?thesis
    using alive g
    by (simp add: run_native_query_alive check_status_snd fresh_handler_simps)
qed

lemma run_native_query_handler:
  "\<exists>hc. snd (run_native_query out h q) = h\<lparr>connection := hc\<rparr>"
proof (cases "fst (check_status out h) = Inr True")
  case True
  have "h = h\<lparr>connection := connection h\<rparr>" by simp
  with True show ?thesis
    by (metis run_native_query_alive snd_conv)
next
  case False
  then have dead: "fst (check_status out h) = Inr False"
    using check_status_cases [of out h] by simp
  show ?thesis
  proof (cases "o_connect out")
    case (Inl e)
    have "h = h\<lparr>connection := connection h\<rparr>" by simp
    then show ?thesis
      by (metis run_native_query_connect_fails [OF dead Inl] snd_conv)
  next
    case (Inr c)
    show ?thesis
      by (rule exI [of _ "Some c"]) (simp add: run_native_query_reconnected [OF dead Inr])
  qed
qed

lemma connect_config_connection [simp]:
  "connect_config (h\<lparr>connection := hc\<rparr>) = connect_config h"
  by (simp add: connect_config_def)

lemma use_statement_connection [simp]:
  "use_statement (h\<lparr>connection := hc\<rparr>) = use_statement h"
  by (simp add: use_statement_def)

text \<open>
  C6. When a connection exists (the probe reports alive, or \<^verbatim>\<open>connect\<close> succeeds) and the
  statement's execution raises \<open>e\<close>, \<^verbatim>\<open>run_native_query\<close> raises an \<^verbatim>\<open>Exception\<close> whose message is
  \<^verbatim>\<open>Error: \<close>, the engine's message, \<^verbatim>\<open>. Please check and retry!\<close>. The engine's message is that of
  \<open>e\<close>, or that of \<^verbatim>\<open>close\<close> when leaving the \<^verbatim>\<open>with\<close> block raises too. The handler can
  reconnect on the next call: whenever the next probe reports not-alive and \<^verbatim>\<open>connect\<close> answers
  with a handle, the next call connects with the same parameters, stores the new handle and
  executes its statement on it.
\<close>

theorem run_native_query_execution_failure:
  assumes "fst (check_status out h) = Inr True \<or> (\<exists>c. o_connect out = Inr c)"
    and "o_cursor out = Inr ()" and "o_use out = Inr ()" and "o_execute out = Inl e"
  shows "fst (fst (run_native_query out h q)) =
           Inl (PyExc ''Exception''
                 (''Error: '' @ exc_msg (case o_close out of Inl e' \<Rightarrow> e' | Inr u \<Rightarrow> e) @
                  ''. Please check and retry!''))
    \<and> (\<forall>out' q' c'.
          fst (check_status out' (snd (run_native_query out h q))) = Inr False
          \<and> o_connect out' = Inr c' \<longrightarrow>
          run_native_query out' (snd (run_native_query out h q)) q' =
            ((fst (guarded_execute out' (h\<lparr>connection := Some c'\<rparr>) q'),
              snd (check_status out' (snd (run_native_query out h q))) @
              [MysqlConnect (connect_config h)] @
              snd (guarded_execute out' (h\<lparr>connection := Some c'\<rparr>) q')),
             h\<lparr>connection := Some c'\<rparr>))"
proof -
  have res: "fst (fst (run_native_query out h q)) =
      Inl (query_error (case o_close out of Inl e' \<Rightarrow> e' | Inr u \<Rightarrow> e))"
  proof (cases "fst (check_status out h) = Inr True")
    case True
    then obtain c where c: "connection h = Some c"
      using alive_connection by blast
    show ?thesis
      using True by (simp add: run_native_query_alive guarded_execute_fails [OF c assms(2-)])
  next
    case False
    then have dead: "fst (check_status out h) = Inr False"
      using check_status_cases [of out h] by simp
    from False assms(1) obtain c where c: "o_connect out = Inr c"
      by blast
    have "connection (h\<lparr>connection := Some c\<rparr>) = Some c"
      by simp
    from guarded_execute_fails [OF this assms(2-)] show ?thesis
      by (simp add: run_native_query_reconnected [OF dead c])
  qed
  obtain hc where h': "snd (run_native_query out h q) = h\<lparr>connection := hc\<rparr>"
    using run_native_query_handler by blast
  have "run_native_query out' (h\<lparr>connection := hc\<rparr>) q' =
            ((fst (guarded_execute out' (h\<lparr>connection := Some c'\<rparr>) q'),
              snd (check_status out' (h\<lparr>connection := hc\<rparr>)) @
              [MysqlConnect (connect_config h)] @
              snd (guarded_execute out' (h\<lparr>connection := Some c'\<rparr>) q')),
             h\<lparr>connection := Some c'\<rparr>)"
    if "fst (check_status out' (h\<lparr>connection := hc\<rparr>)) = Inr False" "o_connect out' = Inr c'"
    for out' q' c'
    using run_native_query_reconnected [OF that, of q'] by simp
  with res show ?thesis
    by (simp add: h' query_error_def)
qed

lemma rejected_simps:
  "o_is_connected rejected = Inr False" "o_probe_close rejected = Inr ()"
  "o_connect rejected = Inr 2" "o_cursor rejected = Inr ()"
  "o_use rejected = Inr ()"
  "o_execute rejected =
     Inl (PyExc ''ProgrammingError'' ''1064 (42000): You have an error in your SQL syntax'')"
  "o_fetchall rejected = Inr []"
  "o_commit rejected = Inr ()" "o_close rejected = Inr ()"
  by (simp_all add: rejected_def all_ok_def)

lemma all_ok_simps:
  "o_is_connected all_ok = Inr True" "o_probe_close all_ok = Inr ()"
  "o_connect all_ok = Inr 2" "o_cursor all_ok = Inr ()"
  "o_use all_ok = Inr ()" "o_execute all_ok = Inr ()" "o_fetchall all_ok = Inr []"
  "o_commit all_ok = Inr ()" "o_close all_ok = Inr ()"
  by (simp_all add: all_ok_def)

theorem run_native_query_execution_failure_witness:
  "o_connect rejected = Inr 2 \<and> o_cursor rejected = Inr () \<and> o_use rejected = Inr ()
   \<and> o_execute rejected =
       Inl (PyExc ''ProgrammingError'' ''1064 (42000): You have an error in your SQL syntax'')
   \<and> fst (fst (run_native_query rejected closed_handler ''SELEC 1'')) =
       Inl (PyExc ''Exception''
         ''Error: 1064 (42000): You have an error in your SQL syntax. Please check and retry!'')
   \<and> fst (check_status (all_ok\<lparr>o_is_connected := Inr False, o_connect := Inr 3\<rparr>)
           (snd (run_native_query rejected closed_handler ''SELEC 1''))) = Inr False
   \<and> fst (fst (run_native_query (all_ok\<lparr>o_is_connected := Inr False, o_connect := Inr 3\<rparr>)
           (snd (run_native_query rejected closed_handler ''SELEC 1'')) ''SELECT 1'')) =
       Inr (Rows [])
   \<and> connection (snd (run_native_query (all_ok\<lparr>o_is_connected := Inr False, o_connect := Inr 3\<rparr>)
           (snd (run_native_query rejected closed_handler ''SELEC 1'')) ''SELECT 1'')) = Some 3"
proof -
  have a: "fst (check_status rejected closed_handler) = Inr True \<or> (\<exists>c. o_connect rejected = Inr c)"
    by (simp add: rejected_simps)
  note t = run_native_query_execution_failure [OF a, of
      "PyExc ''ProgrammingError'' ''1064 (42000): You have an error in your SQL syntax''"
      "''SELEC 1''"]
  have dead: "fst (check_status (all_ok\<lparr>o_is_connected := Inr False, o_connect := Inr 3\<rparr>)
           (snd (run_native_query rejected closed_handler ''SELEC 1''))) = Inr False"
    by (simp add: check_status_fst all_ok_simps split: option.splits)
  have g: "guarded_execute (all_ok\<lparr>o_is_connected := Inr False, o_connect := Inr 3\<rparr>)
      (closed_handler\<lparr>connection := Some 3\<rparr>) ''SELECT 1'' =
      (Inr (Rows []), [ConCursor 3, CurExecute 3 (use_statement closed_handler),
        CurExecute 3 ''SELECT 1'', CurFetchall 3, ConCommit 3, ConClose 3])"
    using guarded_execute_rows [of "closed_handler\<lparr>connection := Some 3\<rparr>" 3
        "all_ok\<lparr>o_is_connected := Inr False, o_connect := Inr 3\<rparr>" "[]" "''SELECT 1''"]
    by (simp add: all_ok_simps)
  show ?thesis
    using t dead g by (simp add: rejected_simps all_ok_simps)
qed

section \<open>Properties of select\_query and select\_into\<close>

lemma select_sql_where_iff:
  "select_sql node_str ts t w = select_sql node_str ts t None \<longleftrightarrow> w = None"
  by (cases w) (simp_all add: select_sql_def)

text \<open>
  C5. For every list of targets, every identifier with at least one path part and every
  optional predicate, \<^verbatim>\<open>select_query\<close> is \<^verbatim>\<open>run_native_query\<close> on exactly the string \<^verbatim>\<open>SELECT \<close>,
  the targets' string forms joined by commas, \<^verbatim>\<open> FROM \<close>, the last path part, and \<^verbatim>\<open> WHERE \<close>
  with the predicate's string form when a predicate is given; the text differs from the one
  without a predicate exactly when a predicate is given.
\<close>

theorem select_query_builds_sql:
  assumes "ps \<noteq> []"
  shows "select_query node_str out h ts (Identifier ps) w =
           run_native_query out h
             (''SELECT '' @ py_join '','' (map node_str ts) @ '' FROM '' @ last ps @
              (case w of None \<Rightarrow> [] | Some p \<Rightarrow> '' WHERE '' @ node_str p))
    \<and> (select_sql node_str ts (last ps) w = select_sql node_str ts (last ps) None
         \<longleftrightarrow> w = None)"
  using assms by (simp add: select_query_def select_sql_def [symmetric] select_sql_where_iff)
    (simp add: select_sql_def)

theorem select_query_builds_sql_witness:
  "[''test'', ''test_mdb''] \<noteq> []
   \<and> select_query (\<lambda>s. s) all_ok closed_handler [''id'', ''test_col'']
       (Identifier [''test'', ''test_mdb'']) (Some ''id = 1'') =
     run_native_query all_ok closed_handler ''SELECT id,test_col FROM test_mdb WHERE id = 1''
   \<and> select_query (\<lambda>s. s) all_ok closed_handler [''id'', ''test_col'']
       (Identifier [''test'', ''test_mdb'']) None =
     run_native_query all_ok closed_handler ''SELECT id,test_col FROM test_mdb''"
  using select_query_builds_sql [of "[''test'', ''test_mdb'']" "\<lambda>s. s" all_ok closed_handler
       "[''id'', ''test_col'']" "Some ''id = 1''"]
    select_query_builds_sql [of "[''test'', ''test_mdb'']" "\<lambda>s. s" all_ok closed_handler
       "[''id'', ''test_col'']" None]
  by simp

lemma engine_url_other_fields [simp]:
  "engine_url (h\<lparr>connection := c, user := u, password := p, ssl := s, ssl_ca := a,
                 ssl_cert := b, ssl_key := k\<rparr>) = engine_url h"
  by (simp add: engine_url_def)

text \<open>
  C9. \<^verbatim>\<open>select_into\<close> builds the engine URL from host, port and database only: its result and
  its calls are the same whatever the user, the password, the TLS settings and the connection
  handle are; its first call is \<^verbatim>\<open>create_engine\<close> on \<^verbatim>\<open>mysql://host:port/database\<close>, and every
  call it makes is \<^verbatim>\<open>create_engine\<close> on that URL, \<^verbatim>\<open>to_sql\<close> of the given frame into the given
  table on that engine, or \<^verbatim>\<open>print\<close>.
\<close>

theorem select_into_url_from_host_port_database:
  "select_into po (h\<lparr>connection := c, user := u, password := p, ssl := s, ssl_ca := a,
                     ssl_cert := b, ssl_key := k\<rparr>) table df = select_into po h table df
   \<and> (\<exists>rest. snd (select_into po h table df) =
         CreateEngine (''mysql://'' @ py_str (host h) @ '':'' @ py_str (port h) @ ''/'' @
                       py_str (database h)) # rest)
   \<and> (\<forall>x \<in> set (snd (select_into po h table df)).
         persistence_call (''mysql://'' @ py_str (host h) @ '':'' @ py_str (port h) @ ''/'' @
                       py_str (database h)) table df x)"
proof -
  have 1: "select_into po (h\<lparr>connection := c, user := u, password := p, ssl := s, ssl_ca := a,
                     ssl_cert := b, ssl_key := k\<rparr>) table df = select_into po h table df"
    unfolding select_into_def engine_url_other_fields ..
  have 2: "snd (select_into po h table df) =
      CreateEngine (engine_url h) #
      (case o_create_engine po of
         Inl e \<Rightarrow> [Print (exc_msg e)]
       | Inr u \<Rightarrow> ToSql table df (engine_url h) #
           (case o_to_sql po of Inl e \<Rightarrow> [Print (exc_msg e)] | Inr u \<Rightarrow> []))"
    by (simp add: select_into_def try_except_def bind_act_def lib_call_def split: sum.splits)
  have 3: "\<forall>x \<in> set (snd (select_into po h table df)).
      persistence_call (engine_url h) table df x"
    unfolding 2 by (auto split: sum.splits)
  from 1 2 3 show ?thesis
    by (simp add: engine_url_def)
qed

theorem select_into_url_from_host_port_database_witness:
  "select_into persist_ok main_handler ''test_mdb2'' (DataFrame [''test_col''] [[PInt 1]]) =
     (Inr True,
      [CreateEngine ''mysql://localhost:3306/test'',
       ToSql ''test_mdb2'' (DataFrame [''test_col''] [[PInt 1]]) ''mysql://localhost:3306/test''])
   \<and> persistence_call ''mysql://localhost:3306/test'' ''test_mdb2''
         (DataFrame [''test_col''] [[PInt 1]]) (CreateEngine ''mysql://localhost:3306/test'')
   \<and> persistence_call ''mysql://localhost:3306/test'' ''test_mdb2''
         (DataFrame [''test_col''] [[PInt 1]])
         (ToSql ''test_mdb2'' (DataFrame [''test_col''] [[PInt 1]]) ''mysql://localhost:3306/test'')"
  using select_into_url_from_host_port_database
    [where po = persist_ok and h = main_handler and table = "''test_mdb2''"
       and df = "DataFrame [''test_col''] [[PInt 1]]"]
  by (simp add: main_handler_simps)
    (simp add: select_into_def try_except_def bind_act_def lib_call_def persist_ok_def
      engine_url_def main_handler_simps)

section \<open>Properties of join\<close>

lemma destination_None_iff: "destination into = None \<longleftrightarrow> into = None \<or> into = Some []"
  by (simp add: destination_def split: option.splits)

lemma merge_results_ok:
  assumes "from_records pd local_result = Inr local_df"
    and "from_records pd external_result = Inr external_df"
    and "df_join pd local_df external_df on ''_left'' ''_right'' = Inr df"
  shows "merge_results pd po h on into local_result external_result =
    (case destination into of
       None \<Rightarrow>
         (Inr df, [FromRecords local_result, FromRecords external_result,
                   DfJoin local_df external_df on ''_left'' ''_right''])
     | Some table \<Rightarrow>
         ((case fst (select_into po h table df) of Inl e \<Rightarrow> Inl e | Inr u \<Rightarrow> Inr df),
          [FromRecords local_result, FromRecords external_result,
           DfJoin local_df external_df on ''_left'' ''_right''] @
          snd (select_into po h table df)))"
  using assms
  by (simp add: merge_results_def bind_act_def lib_call_def split: option.splits sum.splits prod.splits)

text \<open>
  C4. For a join statement whose two queries and whose pandas calls succeed, \<^verbatim>\<open>join\<close> makes,
  in this order: the calls of its own \<^verbatim>\<open>select_query\<close> on the left side of the from-clause,
  the calls of the other handler's \<^verbatim>\<open>select_query\<close> on the right side (both with the
  statement's targets and predicate), \<^verbatim>\<open>from_records\<close> on either result, the pandas join of
  the two frames on the targets' string forms with the suffixes \<^verbatim>\<open>_left\<close> and \<^verbatim>\<open>_right\<close>, and
  the calls of its own \<^verbatim>\<open>select_into\<close> with the merged frame exactly when a destination is
  supplied (\<^verbatim>\<open>into\<close> is a non-empty string). It returns the merged frame, unless
  \<^verbatim>\<open>select_into\<close> raises.
\<close>

theorem join_steps:
  assumes "from_table stmt = Join l r"
    and "select_query node_str out h (targets stmt) l (where_stmt stmt) =
           ((Inr local_result, cs1), h1)"
    and "dh (targets stmt) r (where_stmt stmt) h1 = ((Inr external_result, cs2), h2)"
    and "from_records pd local_result = Inr local_df"
    and "from_records pd external_result = Inr external_df"
    and "df_join pd local_df external_df (map node_str (targets stmt)) ''_left'' ''_right'' = Inr df"
  shows "join node_str pd out dh po h stmt into =
     (case destination into of
        None \<Rightarrow>
          ((Inr df,
            cs1 @ cs2 @
            [FromRecords local_result, FromRecords external_result,
             DfJoin local_df external_df (map node_str (targets stmt)) ''_left'' ''_right'']), h2)
      | Some table \<Rightarrow>
          (((case fst (select_into po h2 table df) of Inl e \<Rightarrow> Inl e | Inr u \<Rightarrow> Inr df),
            cs1 @ cs2 @
            [FromRecords local_result, FromRecords external_result,
             DfJoin local_df external_df (map node_str (targets stmt)) ''_left'' ''_right''] @
            snd (select_into po h2 table df)), h2))
    \<and> (destination into = None \<longleftrightarrow> into = None \<or> into = Some [])"
proof -
  have j: "join node_str pd out dh po h stmt into =
      (case merge_results pd po h2 (map node_str (targets stmt)) into
              local_result external_result of
         (res, cs3) \<Rightarrow> ((res, cs1 @ cs2 @ cs3), h2))"
    using assms(1-3) by (simp add: join_def)
  have "join node_str pd out dh po h stmt into =
     (case destination into of
        None \<Rightarrow>
          ((Inr df,
            cs1 @ cs2 @
            [FromRecords local_result, FromRecords external_result,
             DfJoin local_df external_df (map node_str (targets stmt)) ''_left'' ''_right'']), h2)
      | Some table \<Rightarrow>
          (((case fst (select_into po h2 table df) of Inl e \<Rightarrow> Inl e | Inr u \<Rightarrow> Inr df),
            cs1 @ cs2 @
            [FromRecords local_result, FromRecords external_result,
             DfJoin local_df external_df (map node_str (targets stmt)) ''_left'' ''_right''] @
            snd (select_into po h2 table df)), h2))"
    unfolding j merge_results_ok [OF assms(4-6)]
    by (cases "destination into") simp_all
  then show ?thesis
    by (intro conjI) (assumption, rule destination_None_iff)
qed

lemma main_join_stmt_simps:
  "targets main_join_stmt = [''test_col'']"
  "from_table main_join_stmt = Join (Identifier [''test_mdb'']) (Identifier [''test_mdb2''])"
  "where_stmt main_join_stmt = None"
  by (simp_all add: main_join_stmt_def)

lemma one_row_simps:
  "o_is_connected one_row = Inr False" "o_probe_close one_row = Inr ()"
  "o_connect one_row = Inr 2" "o_cursor one_row = Inr ()"
  "o_use one_row = Inr ()" "o_execute one_row = Inr ()"
  "o_fetchall one_row = Inr [[(''test_col'', PInt 1)]]"
  "o_commit one_row = Inr ()" "o_close one_row = Inr ()"
  by (simp_all add: one_row_def all_ok_def)

lemma select_query_one_row:
  assumes "connection h = Some c"
  shows "select_query (\<lambda>s. s) one_row h [''test_col''] (Identifier [t]) None =
    ((Inr (Rows [[(''test_col'', PInt 1)]]),
      [ConIsConnected c, ConClose c, MysqlConnect (connect_config h),
       ConCursor 2, CurExecute 2 (use_statement h), CurExecute 2 (''SELECT test_col FROM '' @ t),
       CurFetchall 2, ConCommit 2, ConClose 2]),
     h\<lparr>connection := Some 2\<rparr>)"
proof -
  have dead: "fst (check_status one_row h) = Inr False"
    by (simp add: check_status_fst one_row_simps assms)
  have g: "guarded_execute one_row (h\<lparr>connection := Some 2\<rparr>) q =
      (Inr (Rows [[(''test_col'', PInt 1)]]),
       [ConCursor 2, CurExecute 2 (use_statement h), CurExecute 2 q, CurFetchall 2, ConCommit 2,
        ConClose 2])" for q
    using guarded_execute_rows [of "h\<lparr>connection := Some 2\<rparr>" 2 one_row
        "[[(''test_col'', PInt 1)]]" q]
    by (simp add: one_row_simps)
  show ?thesis
    by (simp add: select_query_def select_sql_def
        run_native_query_reconnected [OF dead one_row_simps(3)] g check_status_snd assms)
qed

theorem join_steps_witness:
  "fst (fst (join (\<lambda>s. s) pandas_stub one_row
               (\<lambda>ts f w h. select_query (\<lambda>s. s) one_row h ts f w)
               persist_ok closed_handler main_join_stmt (Some ''test_join_into_mysql''))) =
     Inr (DataFrame [''test_col_left'', ''test_col_right''] [[PInt 1, PInt 1]])
   \<and> drop 18 (snd (fst (join (\<lambda>s. s) pandas_stub one_row
               (\<lambda>ts f w h. select_query (\<lambda>s. s) one_row h ts f w)
               persist_ok closed_handler main_join_stmt (Some ''test_join_into_mysql'')))) =
     [FromRecords (Rows [[(''test_col'', PInt 1)]]), FromRecords (Rows [[(''test_col'', PInt 1)]]),
      DfJoin (DataFrame [''test_col''] [[PInt 1]]) (DataFrame [''test_col''] [[PInt 1]])
        [''test_col''] ''_left'' ''_right'',
      CreateEngine ''mysql://localhost:3306/test'',
      ToSql ''test_join_into_mysql''
        (DataFrame [''test_col_left'', ''test_col_right''] [[PInt 1, PInt 1]])
        ''mysql://localhost:3306/test'']
   \<and> drop 18 (snd (fst (join (\<lambda>s. s) pandas_stub one_row
               (\<lambda>ts f w h. select_query (\<lambda>s. s) one_row h ts f w)
               persist_ok closed_handler main_join_stmt None))) =
     [FromRecords (Rows [[(''test_col'', PInt 1)]]), FromRecords (Rows [[(''test_col'', PInt 1)]]),
      DfJoin (DataFrame [''test_col''] [[PInt 1]]) (DataFrame [''test_col''] [[PInt 1]])
        [''test_col''] ''_left'' ''_right'']"
proof -
  let ?rows = "Rows [[(''test_col'', PInt 1)]]"
  let ?df = "DataFrame [''test_col''] [[PInt 1]]"
  let ?h1 = "closed_handler\<lparr>connection := Some 2\<rparr>"
  have a1: "from_table main_join_stmt = Join (Identifier [''test_mdb'']) (Identifier [''test_mdb2''])"
    by (simp add: main_join_stmt_simps)
  have a2: "select_query (\<lambda>s. s) one_row closed_handler (targets main_join_stmt)
      (Identifier [''test_mdb'']) (where_stmt main_join_stmt) =
      ((Inr ?rows,
        [ConIsConnected 0, ConClose 0, MysqlConnect (connect_config closed_handler),
         ConCursor 2, CurExecute 2 (use_statement closed_handler),
         CurExecute 2 (''SELECT test_col FROM '' @ ''test_mdb''),
         CurFetchall 2, ConCommit 2, ConClose 2]), ?h1)"
    using select_query_one_row [of closed_handler 0 "''test_mdb''"]
    by (simp add: main_join_stmt_simps closed_handler_simps)
  have a3: "(\<lambda>ts f w h. select_query (\<lambda>s. s) one_row h ts f w) (targets main_join_stmt)
      (Identifier [''test_mdb2'']) (where_stmt main_join_stmt) ?h1 =
      ((Inr ?rows,
        [ConIsConnected 2, ConClose 2, MysqlConnect (connect_config ?h1),
         ConCursor 2, CurExecute 2 (use_statement ?h1),
         CurExecute 2 (''SELECT test_col FROM '' @ ''test_mdb2''),
         CurFetchall 2, ConCommit 2, ConClose 2]), ?h1\<lparr>connection := Some 2\<rparr>)"
    using select_query_one_row [of ?h1 2 "''test_mdb2''"]
    by (simp add: main_join_stmt_simps)
  have a4: "from_records pandas_stub ?rows = Inr ?df"
    by (simp add: pandas_stub_def)
  have a6: "df_join pandas_stub ?df ?df (map (\<lambda>s. s) (targets main_join_stmt)) ''_left'' ''_right''
      = Inr (DataFrame [''test_col_left'', ''test_col_right''] [[PInt 1, PInt 1]])"
    by (simp add: pandas_stub_def)
  have si: "select_into persist_ok ?h1 ''test_join_into_mysql'' d =
      (Inr True, [CreateEngine ''mysql://localhost:3306/test'',
                  ToSql ''test_join_into_mysql'' d ''mysql://localhost:3306/test''])" for d
    by (simp add: select_into_def try_except_def bind_act_def lib_call_def persist_ok_def
        engine_url_def closed_handler_simps)
  show ?thesis
    using join_steps [where dh = "\<lambda>ts f w h. select_query (\<lambda>s. s) one_row h ts f w"
          and po = persist_ok and into = "Some ''test_join_into_mysql''", OF a1 a2 a3 a4 a4 a6]
      join_steps [where dh = "\<lambda>ts f w h. select_query (\<lambda>s. s) one_row h ts f w"
          and po = persist_ok and into = None, OF a1 a2 a3 a4 a4 a6]
    by (simp add: destination_def si main_join_stmt_simps)
qed

end
